theory Spec2Isabelle
  imports Main
begin

section \<open>Values parsed from a page\<close>

text \<open>
  The scraper of \<^verbatim>\<open>src/main.js\<close> passes around plain JavaScript values that come out of
  \<^verbatim>\<open>JSON.parse\<close> or out of the DOM queries. They are modelled by one datatype. A number is
  kept as the text JavaScript prints for it (\<^verbatim>\<open>String(n)\<close>): the code never calculates with
  a parsed number, it only tests it for truth and joins it into text, and the printed text
  decides both (zero, also negative zero, prints as \<^verbatim>\<open>0\<close>). An object is the list of its
  properties, looked up by name; a property that is not there reads as \<^verbatim>\<open>undefined\<close>, which
  is \<open>None\<close>.
\<close>

datatype json =
    JNull
  | JBool bool
  | JNum string
  | JStr string
  | JArr "json list"
  | JObj "(string \<times> json) list"

text \<open>Truthiness, as \<^verbatim>\<open>Boolean(v)\<close>, \<^verbatim>\<open>!v\<close> and \<^verbatim>\<open>v || d\<close> use it.\<close>

fun truthy :: "json \<Rightarrow> bool" where
  "truthy JNull = False"
| "truthy (JBool b) = b"
| "truthy (JNum t) = (t \<noteq> ''0'' \<and> t \<noteq> ''NaN'')"
| "truthy (JStr s) = (s \<noteq> [])"
| "truthy (JArr xs) = True"
| "truthy (JObj kvs) = True"

fun truthy_opt :: "json option \<Rightarrow> bool" where
  "truthy_opt None = False"
| "truthy_opt (Some v) = truthy v"

text \<open>\<^verbatim>\<open>x || d\<close> where \<open>x\<close> may be undefined.\<close>

fun or_else :: "json option \<Rightarrow> json \<Rightarrow> json" where
  "or_else None d = d"
| "or_else (Some v) d = (if truthy v then v else d)"

text \<open>
  Reading a property \<^verbatim>\<open>v.k\<close> of a value that is not null. Only an object has the properties
  the scraper asks for; a string, number, boolean or array answers \<^verbatim>\<open>undefined\<close> for each
  of them. Reading a property of \<^verbatim>\<open>null\<close> throws, and every place of the model where the
  value can be null handles that case before it calls \<open>get\<close>.
\<close>

fun get :: "json \<Rightarrow> string \<Rightarrow> json option" where
  "get (JObj kvs) k = map_of kvs k"
| "get v k = None"

text \<open>Optional chaining \<^verbatim>\<open>x?.k\<close>.\<close>

fun opt_get :: "json option \<Rightarrow> string \<Rightarrow> json option" where
  "opt_get None k = None"
| "opt_get (Some JNull) k = None"
| "opt_get (Some v) k = get v k"

text \<open>Text pieces put together with a separator between them.\<close>

fun join_with :: "string \<Rightarrow> string list \<Rightarrow> string" where
  "join_with sep [] = []"
| "join_with sep [s] = s"
| "join_with sep (s # t # ss) = s @ sep @ join_with sep (t # ss)"

text \<open>
  The conversion of a value to text, as \<^verbatim>\<open>String(v)\<close>, a template literal and
  \<^verbatim>\<open>Array.prototype.join\<close> do it; \<open>None\<close> is the \<^verbatim>\<open>TypeError\<close> the conversion throws.
  An array prints its elements separated by commas, with nothing for a null element. An
  object prints as \<^verbatim>\<open>[object Object]\<close>, through the \<^verbatim>\<open>toString\<close> it inherits; an object
  with a property \<^verbatim>\<open>toString\<close> of its own has a value there that cannot be called, its
  \<^verbatim>\<open>valueOf\<close> does not give a primitive either, and the conversion throws.
\<close>

fun toStr :: "json \<Rightarrow> string option" where
  "toStr JNull = Some ''null''"
| "toStr (JBool b) = Some (if b then ''true'' else ''false'')"
| "toStr (JNum t) = Some t"
| "toStr (JStr s) = Some s"
| "toStr (JArr xs) =
     map_option (join_with '','')
       (those (map (\<lambda>x. case x of JNull \<Rightarrow> Some [] | _ \<Rightarrow> toStr x) xs))"
| "toStr (JObj kvs) =
     (if map_of kvs ''toString'' \<noteq> None then None else Some ''[object Object]'')"

text \<open>
  \<^verbatim>\<open>Array.prototype.join\<close>: a null or undefined element contributes the empty text, any
  other element its text; the join throws when an element has none.
\<close>

fun elem_str :: "json option \<Rightarrow> string option" where
  "elem_str None = Some []"
| "elem_str (Some JNull) = Some []"
| "elem_str (Some v) = toStr v"

definition array_join :: "string \<Rightarrow> json option list \<Rightarrow> string option" where
  "array_join sep vs = map_option (join_with sep) (those (map elem_str vs))"

text \<open>\<^verbatim>\<open>s.includes(t)\<close>: \<open>t\<close> occurs in \<open>s\<close> as a contiguous piece.\<close>

fun str_includes :: "string \<Rightarrow> string \<Rightarrow> bool" where
  "str_includes [] t = (t = [])"
| "str_includes (c # cs) t = (take (length t) (c # cs) = t \<or> str_includes cs t)"

section \<open>The record of one lawyer\<close>

text \<open>
  The object every extraction strategy builds. The fields copied from page data hold whatever
  value the page had. \<open>education\<close> and \<open>awards\<close> are absent until the enrichment pass sets
  them.
\<close>

record lawyer =
  name :: json
  rating :: json
  reviewCount :: json
  practiceAreas :: json
  location :: json
  phone :: json
  email :: json
  website :: json
  yearsLicensed :: json
  barAdmissions :: json
  languages :: json
  profileUrl :: json
  bio :: json
  scrapedAt :: string
  education :: "string list option"
  awards :: "string list option"

section \<open>Strategy 1: structured metadata\<close>

text \<open>
  \<^verbatim>\<open>parseAttorneySchema(attorneyData)\<close>. It is called on entries that carry a recognised
  \<^verbatim>\<open>@type\<close>, which are objects, so the argument is the object's property list. \<open>now\<close> is
  the reading of the clock that \<^verbatim>\<open>new Date().toISOString()\<close> gives. The join of the address
  parts can throw; then the function throws, which is the result \<open>None\<close>.
\<close>

definition schema_location :: "json \<Rightarrow> string option" where
  "schema_location address =
     (case address of
        JStr s \<Rightarrow> Some s
      | _ \<Rightarrow> array_join '', ''
               (filter truthy_opt
                  [get address ''addressLocality'',
                   get address ''addressRegion'',
                   get address ''postalCode'']))"

definition schema_practiceAreas :: "(string \<times> json) list \<Rightarrow> json" where
  "schema_practiceAreas attorneyData =
     (case map_of attorneyData ''knowsAbout'' of
        Some (JArr xs) \<Rightarrow> JArr xs
      | _ \<Rightarrow> (if truthy_opt (map_of attorneyData ''areaServed'')
               then JArr [the (map_of attorneyData ''areaServed'')]
               else JArr []))"

definition parseAttorneySchema :: "string \<Rightarrow> (string \<times> json) list \<Rightarrow> lawyer option" where
  "parseAttorneySchema now attorneyData =
     (let address = or_else (map_of attorneyData ''address'') (JObj []);
          practiceAreas = schema_practiceAreas attorneyData
      in case schema_location address of
           None \<Rightarrow> None
         | Some loc \<Rightarrow> Some
         \<lparr> name = or_else (map_of attorneyData ''name'') (JStr []),
           rating = or_else (opt_get (map_of attorneyData ''aggregateRating'') ''ratingValue'') JNull,
           reviewCount =
             or_else (opt_get (map_of attorneyData ''aggregateRating'') ''reviewCount'') (JNum ''0''),
           practiceAreas = practiceAreas,
           location = JStr loc,
           phone = or_else (map_of attorneyData ''telephone'') (JStr []),
           email = or_else (map_of attorneyData ''email'') (JStr []),
           website = or_else (map_of attorneyData ''url'') (JStr []),
           yearsLicensed = JNull,
           barAdmissions = JArr [],
           languages = JArr [],
           profileUrl = or_else (map_of attorneyData ''url'') (JStr []),
           bio = or_else (map_of attorneyData ''description'') (JStr []),
           scrapedAt = now,
           education = None,
           awards = None \<rparr>)"

text \<open>The test \<^verbatim>\<open>item['@type'] === 'Attorney' || ... 'Person' || ... 'LegalService'\<close>.\<close>

definition is_listing_type :: "json option \<Rightarrow> bool" where
  "is_listing_type t =
     (t = Some (JStr ''Attorney'') \<or> t = Some (JStr ''Person'') \<or> t = Some (JStr ''LegalService''))"

text \<open>
  \<^verbatim>\<open>for (const item of data) if (item['@type'] === ...) lawyers.push(parseAttorneySchema(item))\<close>.
  A null item makes \<^verbatim>\<open>item['@type']\<close> throw, and \<^verbatim>\<open>parseAttorneySchema\<close> can throw: the
  loop stops there, the surrounding \<^verbatim>\<open>catch\<close> takes over, and what was pushed before stays.
\<close>

fun collectItems :: "string \<Rightarrow> json list \<Rightarrow> lawyer list" where
  "collectItems now [] = []"
| "collectItems now (JNull # rest) = []"
| "collectItems now (JObj kvs # rest) =
     (if is_listing_type (map_of kvs ''@type'')
      then (case parseAttorneySchema now kvs of
              None \<Rightarrow> []
            | Some lawyer \<Rightarrow> lawyer # collectItems now rest)
      else collectItems now rest)"
| "collectItems now (v # rest) = collectItems now rest"

text \<open>
  The \<^verbatim>\<open>ItemList\<close> loop: \<^verbatim>\<open>const item = listItem.item || listItem\<close>, then the same test.
  \<open>item\<close> is never null here.
\<close>

fun collectListItems :: "string \<Rightarrow> json list \<Rightarrow> lawyer list" where
  "collectListItems now [] = []"
| "collectListItems now (JNull # rest) = []"
| "collectListItems now (listItem # rest) =
     (case or_else (get listItem ''item'') listItem of
        JObj kvs \<Rightarrow>
          (if is_listing_type (map_of kvs ''@type'')
           then (case parseAttorneySchema now kvs of
                   None \<Rightarrow> []
                 | Some lawyer \<Rightarrow> lawyer # collectListItems now rest)
           else collectListItems now rest)
      | _ \<Rightarrow> collectListItems now rest)"

text \<open>
  What \<^verbatim>\<open>for (const x of v)\<close> walks over: the elements of an array, the characters of a
  string. Any other value is not iterable, the loop throws before its first round and the
  \<^verbatim>\<open>catch\<close> of the script takes over, so nothing is pushed.
\<close>

fun iterate :: "json \<Rightarrow> json list" where
  "iterate (JArr xs) = xs"
| "iterate (JStr s) = map (\<lambda>c. JStr [c]) s"
| "iterate v = []"

text \<open>The body of the loop over the script blocks, for one block that parsed to \<open>data\<close>.\<close>

definition processScript :: "string \<Rightarrow> json \<Rightarrow> lawyer list" where
  "processScript now data =
     (case data of
        JArr xs \<Rightarrow> collectItems now xs
      | JNull \<Rightarrow> []
      | JObj kvs \<Rightarrow>
          (if is_listing_type (map_of kvs ''@type'')
             then (case parseAttorneySchema now kvs of None \<Rightarrow> [] | Some lawyer \<Rightarrow> [lawyer])
           else if truthy_opt (map_of kvs ''@graph'')
             then collectItems now (iterate (the (map_of kvs ''@graph'')))
           else if map_of kvs ''@type'' = Some (JStr ''ItemList'')
                   \<and> truthy_opt (map_of kvs ''itemListElement'')
             then collectListItems now (iterate (the (map_of kvs ''itemListElement'')))
           else [])
      | _ \<Rightarrow> [])"

text \<open>
  \<^verbatim>\<open>extractLawyersViaJsonLD(page)\<close> over the contents of the page's
  \<^verbatim>\<open>application/ld+json\<close> script blocks. \<open>None\<close> is a block that \<^verbatim>\<open>JSON.parse\<close> rejects:
  it is skipped and the next block is read.
\<close>

definition extractLawyersViaJsonLD :: "string \<Rightarrow> json option list \<Rightarrow> lawyer list" where
  "extractLawyersViaJsonLD now jsonLdScripts =
     concat (map (\<lambda>script. case script of None \<Rightarrow> [] | Some data \<Rightarrow> processScript now data)
                 jsonLdScripts)"

section \<open>Detail pages and the enrichment pass\<close>

text \<open>
  What \<^verbatim>\<open>gotScraping\<close> gives for a profile link: a response with its status code and the
  document \<^verbatim>\<open>cheerio\<close> reads from its body, or a thrown error with its message (empty when
  the error has none). Of the document the code reads the title, the trimmed text of the
  first bio element and the trimmed texts of the education and award elements, in page order.
  The cookies and the user agent of the browser session go into every request; they are the
  same all through a pass and are part of the network \<open>gotScraping\<close>.
\<close>

record profile_doc =
  docTitle :: string
  docBio :: string
  docEducation :: "string list"
  docAwards :: "string list"

datatype http_result =
    Response int profile_doc
  | FetchError string

text \<open>
  The three things \<^verbatim>\<open>fetchLawyerProfile\<close> returns: \<^verbatim>\<open>{ blocked: true }\<close>, \<^verbatim>\<open>null\<close>, or
  the additional information \<^verbatim>\<open>{ bio, education, awards }\<close>.
\<close>

datatype profile_data =
    Blocked
  | NoData
  | Info string "string list" "string list"

definition fetchLawyerProfile :: "(json \<Rightarrow> http_result) \<Rightarrow> json \<Rightarrow> profile_data" where
  "fetchLawyerProfile gotScraping url =
     (case gotScraping url of
        Response statusCode doc \<Rightarrow>
          (if statusCode = 403 \<or> statusCode = 503 then Blocked
           else if statusCode \<noteq> 200 then NoData
           else if str_includes (docTitle doc) ''Just a moment''
                   \<or> str_includes (docTitle doc) ''Cloudflare'' then Blocked
           else Info (docBio doc)
                     (filter (\<lambda>e. e \<noteq> []) (docEducation doc))
                     (filter (\<lambda>a. a \<noteq> []) (docAwards doc)))
      | FetchError message \<Rightarrow>
          (if message \<noteq> [] \<and> (str_includes message ''403'' \<or> str_includes message ''503'')
           then Blocked else NoData))"

text \<open>
  The callback of \<^verbatim>\<open>batch.map\<close> in \<^verbatim>\<open>enrichLawyersWithProfiles\<close>, with the counter
  \<^verbatim>\<open>blockedCount\<close> it updates passed through.
\<close>

definition enrichOne :: "(json \<Rightarrow> http_result) \<Rightarrow> lawyer \<Rightarrow> nat \<Rightarrow> lawyer \<times> nat" where
  "enrichOne gotScraping lawyer blockedCount =
     (if \<not> truthy (profileUrl lawyer) then (lawyer, blockedCount)
      else
        (case fetchLawyerProfile gotScraping (profileUrl lawyer) of
           Blocked \<Rightarrow> (lawyer, blockedCount + 1)
         | Info b e a \<Rightarrow>
             (lawyer\<lparr> bio := (if b \<noteq> [] then JStr b else bio lawyer),
                      education := Some e,
                      awards := Some a \<rparr>,
              blockedCount)
         | NoData \<Rightarrow> (lawyer, blockedCount)))"

fun enrichBatch :: "(json \<Rightarrow> http_result) \<Rightarrow> lawyer list \<Rightarrow> nat \<Rightarrow> lawyer list \<times> nat" where
  "enrichBatch gotScraping [] blockedCount = ([], blockedCount)"
| "enrichBatch gotScraping (lawyer # rest) blockedCount =
     (case enrichOne gotScraping lawyer blockedCount of
        (lawyer', blockedCount') \<Rightarrow>
          (case enrichBatch gotScraping rest blockedCount' of
             (rest', blockedCount'') \<Rightarrow> (lawyer' # rest', blockedCount'')))"

text \<open>
  The batch size. \<^verbatim>\<open>maxConcurrency\<close> is a parameter with default 10 and the only call leaves
  it at the default.
\<close>

definition batchSize :: nat where
  "batchSize = 10"

text \<open>
  The loop \<^verbatim>\<open>for (let i = 0; i < lawyers.length; i += batchSize)\<close>. The fetches of one batch
  run concurrently in the source; each changes only its own record and adds one to the
  counter, so the order inside a batch does not show in the result.
\<close>

function enrichLoop ::
  "(json \<Rightarrow> http_result) \<Rightarrow> lawyer list \<Rightarrow> nat \<Rightarrow> lawyer list \<Rightarrow> nat \<Rightarrow> lawyer list \<times> nat"
where
  "enrichLoop gotScraping lawyers i enrichedLawyers blockedCount =
     (if i < length lawyers
      then
        (case enrichBatch gotScraping (take batchSize (drop i lawyers)) blockedCount of
           (batchResults, blockedCount') \<Rightarrow>
             enrichLoop gotScraping lawyers (i + batchSize)
               (enrichedLawyers @ batchResults) blockedCount')
      else (enrichedLawyers, blockedCount))"
  by pat_completeness auto
termination
  by (relation "measure (\<lambda>(g, lawyers, i, e, b). length lawyers - i)")
     (auto simp: batchSize_def)

text \<open>
  \<^verbatim>\<open>enrichLawyersWithProfiles\<close>; beside the enriched list the model returns the final value
  of \<^verbatim>\<open>blockedCount\<close>, which the source reports in its closing warning.
\<close>

definition enrichLawyersWithProfiles ::
  "(json \<Rightarrow> http_result) \<Rightarrow> lawyer list \<Rightarrow> lawyer list \<times> nat"
where
  "enrichLawyersWithProfiles gotScraping lawyers =
     (if length lawyers = 0 then (lawyers, 0)
      else enrichLoop gotScraping lawyers 0 [] 0)"

section \<open>The run\<close>

text \<open>
  The browser, the platform store and the request queue are outside the program. A call into
  them is taken by what it returns; the \<^verbatim>\<open>catch\<close> blocks of the source that do nothing but log
  a failure of such a call have no branch of their own here. Two throws of the program itself
  are branches of the model: a conversion to text that fails in the address join, and one
  that fails in the log line of the filter.
\<close>

datatype error = InvalidInput | MaxLawyersOutOfRange

text \<open>
  \<^verbatim>\<open>const maxLawyers = input.maxLawyers ?? 50\<close> and the range check after it. \<open>None\<close> is an
  input whose \<^verbatim>\<open>maxLawyers\<close> is null or undefined.
\<close>

definition resolveMaxLawyers :: "int option \<Rightarrow> error + int" where
  "resolveMaxLawyers inputMaxLawyers =
     (let maxLawyers = (case inputMaxLawyers of None \<Rightarrow> 50 | Some v \<Rightarrow> v)
      in if maxLawyers < 0 \<or> maxLawyers > 10000 then Inl MaxLawyersOutOfRange
         else Inr maxLawyers)"

record config =
  maxLawyers :: int
  includeContactInfo :: bool

datatype strategy = JsonLD | InternalAPI | HtmlParsing

text \<open>One line of the structure analysis that \<^verbatim>\<open>saveDebugInfo\<close> logs.\<close>

record debug_info =
  dbgArticleCount :: nat
  dbgDivLawyerCount :: nat
  dbgDataTestIdCount :: nat
  dbgTitle :: string
  dbgHasCloudflare :: bool

text \<open>
  The variables the request handler closes over (\<^verbatim>\<open>totalLawyersScraped\<close>,
  \<^verbatim>\<open>pagesProcessed\<close>, \<^verbatim>\<open>extractionMethod\<close>, \<^verbatim>\<open>seenLawyerUrls\<close>) and the outside world it
  writes to: the records given to \<^verbatim>\<open>Actor.pushData\<close>, the writes of \<^verbatim>\<open>Actor.setValue\<close>, the
  links given to \<^verbatim>\<open>crawler.addRequests\<close>, the structure analyses logged, and the strategies
  called, each in the order it happened.
\<close>

record run_state =
  totalLawyersScraped :: int
  pagesProcessed :: nat
  extractionMethod :: string
  seenLawyerUrls :: "json set"
  dataset :: "lawyer list"
  keyValueWrites :: "(string \<times> string) list"
  requestQueue :: "string list"
  debugLog :: "debug_info list"
  strategyCalls :: "strategy list"

definition initialState :: run_state where
  "initialState =
     \<lparr> totalLawyersScraped = 0, pagesProcessed = 0, extractionMethod = ''None'',
       seenLawyerUrls = {}, dataset = [], keyValueWrites = [], requestQueue = [],
       debugLog = [], strategyCalls = [] \<rparr>"

text \<open>
  A rendered page, as the handler questions it. \<open>pageTitle k\<close> and \<open>bodyInnerText k\<close> are
  what \<^verbatim>\<open>page.title()\<close> and \<^verbatim>\<open>document.body.innerText\<close> show after \<open>k\<close> remediation rounds.
  The embedded-data and HTML strategies are taken by their results; \<open>clock\<close> is the time of
  day while the page is handled.
\<close>

record page =
  pageTitle :: "nat \<Rightarrow> string"
  bodyInnerText :: "nat \<Rightarrow> string"
  jsonLdScripts :: "json option list"
  apiLawyers :: "lawyer list"
  htmlLawyers :: "lawyer list"
  content :: string
  articleCount :: nat
  divLawyerCount :: nat
  dataTestIdCount :: nat
  contentTitle :: string
  hasNextPage :: bool
  nextPageUrl :: string
  clock :: string

definition saveDebugInfo :: "page \<Rightarrow> run_state \<Rightarrow> run_state" where
  "saveDebugInfo page s =
     s\<lparr> debugLog := debugLog s @
           [\<lparr> dbgArticleCount = articleCount page,
              dbgDivLawyerCount = divLawyerCount page,
              dbgDataTestIdCount = dataTestIdCount page,
              dbgTitle = contentTitle page,
              dbgHasCloudflare =
                (str_includes (content page) ''Just a moment''
                 \<or> str_includes (content page) ''cf-browser'') \<rparr>],
        keyValueWrites := keyValueWrites s @ [(''DEBUG_PAGE_HTML'', content page)] \<rparr>"

definition maxRetries :: nat where
  "maxRetries = 3"

definition challengeDetected :: "page \<Rightarrow> nat \<Rightarrow> bool" where
  "challengeDetected page k =
     (let title = pageTitle page k;
          bodyText = take 500 (bodyInnerText page k)
      in str_includes title ''Just a moment''
         \<or> str_includes title ''Cloudflare''
         \<or> str_includes bodyText ''unusual traffic''
         \<or> str_includes bodyText ''Checking your browser'')"

text \<open>
  The loop \<^verbatim>\<open>while (retryCount < maxRetries)\<close>; the result is \<^verbatim>\<open>retryCount\<close> when the
  loop is left. Each round that detects the challenge runs one remediation and adds one.
\<close>

function challengeLoop :: "page \<Rightarrow> nat \<Rightarrow> nat" where
  "challengeLoop page retryCount =
     (if retryCount < maxRetries
      then (if challengeDetected page retryCount
            then challengeLoop page (retryCount + 1)
            else retryCount)
      else retryCount)"
  by pat_completeness auto
termination
  by (relation "measure (\<lambda>(page, retryCount). maxRetries - retryCount)") auto

text \<open>
  The cascade of the three strategies in \<^verbatim>\<open>requestHandler\<close>: each later strategy is called
  only if \<^verbatim>\<open>lawyers.length === 0\<close> still holds, and a strategy that finds something writes
  its label into \<^verbatim>\<open>extractionMethod\<close>.
\<close>

definition tryJsonLD :: "page \<Rightarrow> run_state \<Rightarrow> lawyer list \<times> run_state" where
  "tryJsonLD page s =
     (let lawyers = extractLawyersViaJsonLD (clock page) (jsonLdScripts page);
          s1 = s\<lparr> strategyCalls := strategyCalls s @ [JsonLD] \<rparr>
      in if length lawyers > 0 then (lawyers, s1\<lparr> extractionMethod := ''JSON-LD'' \<rparr>)
         else (lawyers, s1))"

definition tryInternalAPI :: "page \<Rightarrow> lawyer list \<times> run_state \<Rightarrow> lawyer list \<times> run_state" where
  "tryInternalAPI page r =
     (case r of (lawyers0, s) \<Rightarrow>
        if length lawyers0 = 0
        then
          (let lawyers = apiLawyers page;
               s1 = s\<lparr> strategyCalls := strategyCalls s @ [InternalAPI] \<rparr>
           in if length lawyers > 0 then (lawyers, s1\<lparr> extractionMethod := ''Internal API'' \<rparr>)
              else (lawyers, s1))
        else (lawyers0, s))"

definition tryHtmlParsing :: "page \<Rightarrow> lawyer list \<times> run_state \<Rightarrow> lawyer list \<times> run_state" where
  "tryHtmlParsing page r =
     (case r of (lawyers0, s) \<Rightarrow>
        if length lawyers0 = 0
        then
          (let lawyers = htmlLawyers page;
               s1 = s\<lparr> strategyCalls := strategyCalls s @ [HtmlParsing] \<rparr>
           in if length lawyers > 0
              then (lawyers, s1\<lparr> extractionMethod := ''HTML Parsing (Cheerio)'' \<rparr>)
              else (lawyers, s1))
        else (lawyers0, s))"

definition runStrategies :: "page \<Rightarrow> run_state \<Rightarrow> lawyer list \<times> run_state" where
  "runStrategies page s = tryHtmlParsing page (tryInternalAPI page (tryJsonLD page s))"

text \<open>
  \<^verbatim>\<open>seenLawyerUrls.has(v)\<close>. A JavaScript \<^verbatim>\<open>Set\<close> compares strings, numbers and booleans by
  value and arrays and objects by reference; an array or object read out of freshly parsed
  page data is a new reference each time, so \<^verbatim>\<open>has\<close> never finds one.
\<close>

fun by_reference :: "json \<Rightarrow> bool" where
  "by_reference (JArr xs) = True"
| "by_reference (JObj kvs) = True"
| "by_reference v = False"

definition set_has :: "json set \<Rightarrow> json \<Rightarrow> bool" where
  "set_has seen v = (v \<in> seen \<and> \<not> by_reference v)"

text \<open>
  The callback of the filter that builds \<^verbatim>\<open>uniqueLawyers\<close>, with the set
  \<^verbatim>\<open>seenLawyerUrls\<close> it reads and extends passed through: \<open>Some True\<close> keeps the record,
  \<open>Some False\<close> drops it. The branch that drops a record first builds the text of its log
  line, \<^verbatim>\<open>`Skipping duplicate lawyer: ${lawyer.name} (${lawyer.profileUrl})`\<close>; when the name
  or the link has no text the callback throws, which is \<open>None\<close>.
\<close>

definition admitLawyer :: "lawyer \<Rightarrow> json set \<Rightarrow> bool option \<times> json set" where
  "admitLawyer lawyer seen =
     (if \<not> truthy (profileUrl lawyer) then (Some True, seen)
      else if set_has seen (profileUrl lawyer)
      then (case (toStr (name lawyer), toStr (profileUrl lawyer)) of
              (Some n, Some u) \<Rightarrow> (Some False, seen)
            | _ \<Rightarrow> (None, seen))
      else (Some True, insert (profileUrl lawyer) seen))"

text \<open>
  The filter itself. A throw of the callback ends it without a list; the links added before
  the throw stay in the set.
\<close>

fun uniqueFilter :: "lawyer list \<Rightarrow> json set \<Rightarrow> lawyer list option \<times> json set" where
  "uniqueFilter [] seen = (Some [], seen)"
| "uniqueFilter (lawyer # rest) seen =
     (case admitLawyer lawyer seen of
        (None, seen1) \<Rightarrow> (None, seen1)
      | (Some keep, seen1) \<Rightarrow>
          (case uniqueFilter rest seen1 of
             (None, seen2) \<Rightarrow> (None, seen2)
           | (Some kept, seen2) \<Rightarrow> (Some (if keep then lawyer # kept else kept), seen2)))"

text \<open>
  \<^verbatim>\<open>maxLawyers > 0 ? lawyers.slice(0, Math.max(0, maxLawyers - totalLawyersScraped)) : lawyers\<close>.
\<close>

definition budgetSlice :: "int \<Rightarrow> int \<Rightarrow> lawyer list \<Rightarrow> lawyer list" where
  "budgetSlice maxL scraped lawyers =
     (if maxL > 0 then take (nat (max 0 (maxL - scraped))) lawyers else lawyers)"

text \<open>
  The end of the handler, after the records were pushed: the budget test that returns, then
  the search for the next page.
\<close>

definition paginate :: "config \<Rightarrow> page \<Rightarrow> run_state \<Rightarrow> run_state" where
  "paginate cfg page s =
     (if maxLawyers cfg > 0 \<and> totalLawyersScraped s \<ge> maxLawyers cfg then s
      else if hasNextPage page \<and> totalLawyersScraped s < maxLawyers cfg
      then
        (if nextPageUrl page \<noteq> [] \<and> take 4 (nextPageUrl page) = ''http''
         then s\<lparr> requestQueue := requestQueue s @ [nextPageUrl page] \<rparr>
         else s)
      else s)"

text \<open>
  The branch \<^verbatim>\<open>if (lawyers.length > 0) { ... }\<close> of the handler. When the filter throws,
  the \<^verbatim>\<open>catch\<close> of the handler logs the error and the handler is done: nothing of the page
  is pushed, and the set keeps the links the filter had added.
\<close>

definition saveLawyers ::
  "config \<Rightarrow> (json \<Rightarrow> http_result) \<Rightarrow> page \<Rightarrow> lawyer list \<Rightarrow> run_state \<Rightarrow> run_state"
where
  "saveLawyers cfg gotScraping page lawyers s =
     (let lawyersToSave = budgetSlice (maxLawyers cfg) (totalLawyersScraped s) lawyers
      in case uniqueFilter lawyersToSave (seenLawyerUrls s) of
           (None, seen') \<Rightarrow> s\<lparr> seenLawyerUrls := seen' \<rparr>
         | (Some uniqueLawyers, seen') \<Rightarrow>
             (let s1 = s\<lparr> seenLawyerUrls := seen' \<rparr>;
                  lawyersToSave =
                    (if length uniqueLawyers > 0 \<and> includeContactInfo cfg
                     then fst (enrichLawyersWithProfiles gotScraping uniqueLawyers)
                     else uniqueLawyers);
                  s2 = (if length lawyersToSave > 0
                        then s1\<lparr> dataset := dataset s1 @ lawyersToSave,
                                 totalLawyersScraped :=
                                   totalLawyersScraped s1 + int (length lawyersToSave) \<rparr>
                        else s1)
              in paginate cfg page s2))"

text \<open>
  \<^verbatim>\<open>requestHandler({ page, request })\<close>. \<open>gotScraping\<close> is the network the enrichment pass
  fetches detail pages from.
\<close>

definition requestHandler ::
  "config \<Rightarrow> (json \<Rightarrow> http_result) \<Rightarrow> page \<Rightarrow> run_state \<Rightarrow> run_state"
where
  "requestHandler cfg gotScraping page s0 =
     (let s = s0\<lparr> pagesProcessed := pagesProcessed s0 + 1 \<rparr>;
          retryCount = challengeLoop page 0
      in if retryCount \<ge> maxRetries then saveDebugInfo page s
         else
           (case runStrategies page s of
              (lawyers, s1) \<Rightarrow>
                (let s2 = (if length lawyers = 0 then saveDebugInfo page s1 else s1)
                 in if length lawyers > 0 then saveLawyers cfg gotScraping page lawyers s2
                    else s2)))"

text \<open>
  A run hands the pages it renders to the handler one after the other: the queue starts with
  one link and each handler adds at most one, at its end, so no two handlers are ever under
  way together.
\<close>

definition processPages ::
  "config \<Rightarrow> (json \<Rightarrow> http_result) \<Rightarrow> page list \<Rightarrow> run_state \<Rightarrow> run_state"
where
  "processPages cfg gotScraping pages s = foldl (\<lambda>s page. requestHandler cfg gotScraping page s) s pages"

section \<open>Notions used to state the properties\<close>

text \<open>
  One record through the enrichment pass, and whether its fetch was answered as blocked.
  Both are read off the callback \<open>enrichOne\<close>, whose record does not depend on the counter.
\<close>

definition enriched :: "(json \<Rightarrow> http_result) \<Rightarrow> lawyer \<Rightarrow> lawyer" where
  "enriched gotScraping lawyer = fst (enrichOne gotScraping lawyer 0)"

definition isBlocked :: "(json \<Rightarrow> http_result) \<Rightarrow> lawyer \<Rightarrow> bool" where
  "isBlocked gotScraping lawyer =
     (truthy (profileUrl lawyer) \<and> fetchLawyerProfile gotScraping (profileUrl lawyer) = Blocked)"

text \<open>
  The profile links of a list of records that the set of seen links can tell apart: the
  truthy ones that are compared by value. A non-empty string is one of them.
\<close>

definition identityKeys :: "lawyer list \<Rightarrow> json list" where
  "identityKeys ls = filter (\<lambda>u. truthy u \<and> \<not> by_reference u) (map profileUrl ls)"

text \<open>
  What holds between the dataset and the set of seen links all through a run: the links of
  the records pushed so far are pairwise different and all in the set.
\<close>

definition keysRecorded :: "run_state \<Rightarrow> bool" where
  "keysRecorded s =
     (distinct (identityKeys (dataset s)) \<and> set (identityKeys (dataset s)) \<subseteq> seenLawyerUrls s)"

text \<open>
  The address rule in words: each of locality, region and postal code is either left out
  (when it is absent, null, the empty string, the number zero or \<^verbatim>\<open>false\<close>), or kept by its
  text (a non-empty string as it is, a number by its digits, \<^verbatim>\<open>true\<close>, an array or an object
  as JavaScript prints it), or it is an array or object that has no text; the location is
  the texts of the kept parts joined with a comma and a space, and there is none when a part
  has no text.
\<close>

datatype part_form = Omitted | Text string | NoText

fun spec_part :: "json option \<Rightarrow> part_form" where
  "spec_part None = Omitted"
| "spec_part (Some JNull) = Omitted"
| "spec_part (Some (JStr s)) = (if s = [] then Omitted else Text s)"
| "spec_part (Some (JNum t)) = (if t = ''0'' \<or> t = ''NaN'' then Omitted else Text t)"
| "spec_part (Some (JBool b)) = (if b then Text ''true'' else Omitted)"
| "spec_part (Some v) = (case toStr v of None \<Rightarrow> NoText | Some t \<Rightarrow> Text t)"

fun kept_texts :: "part_form list \<Rightarrow> string list option" where
  "kept_texts [] = Some []"
| "kept_texts (Omitted # ps) = kept_texts ps"
| "kept_texts (Text t # ps) = map_option ((#) t) (kept_texts ps)"
| "kept_texts (NoText # ps) = None"

definition spec_location :: "part_form list \<Rightarrow> string option" where
  "spec_location parts = map_option (join_with '', '') (kept_texts parts)"

section \<open>Example data\<close>

text \<open>A record with a given profile link and bio, and nothing else of interest.\<close>

definition sampleLawyer :: "string \<Rightarrow> string \<Rightarrow> lawyer" where
  "sampleLawyer url b =
     \<lparr> name = JStr ''Jane Doe'', rating = JNull, reviewCount = JNum ''0'',
       practiceAreas = JArr [], location = JStr [], phone = JStr [], email = JStr [],
       website = JStr [], yearsLicensed = JNull, barAdmissions = JArr [], languages = JArr [],
       profileUrl = JStr url, bio = JStr b, scrapedAt = ''2024-01-01T00:00:00.000Z'',
       education = None, awards = None \<rparr>"

definition sampleUrl :: "string \<Rightarrow> string" where
  "sampleUrl n = ''https://www.avvo.com/attorneys/'' @ n @ ''.html''"


text \<open>A structured-metadata entry and the document of a detail page.\<close>

definition sampleEntry :: "(string \<times> json) list" where
  "sampleEntry =
     [(''@type'', JStr ''Attorney''), (''name'', JStr ''Jane Doe''),
      (''url'', JStr ''https://www.avvo.com/attorneys/1.html'')]"

text \<open>An entry whose \<^verbatim>\<open>url\<close> is a one-element array, as structured data may write it.\<close>

definition arrayLinkEntry :: "(string \<times> json) list" where
  "arrayLinkEntry =
     [(''@type'', JStr ''Attorney''), (''name'', JStr ''Jane Doe''),
      (''url'', JArr [JStr ''https://www.avvo.com/attorneys/1.html''])]"


text \<open>
  A listing page without a challenge, with a next-page link, given by what its script
  blocks, its embedded data and its cards yield; and a page that shows the challenge for
  ever.
\<close>

definition samplePage :: "json option list \<Rightarrow> lawyer list \<Rightarrow> lawyer list \<Rightarrow> page" where
  "samplePage scripts api html =
     \<lparr> pageTitle = (\<lambda>k. ''Lawyers''), bodyInnerText = (\<lambda>k. ''Find a lawyer''),
       jsonLdScripts = scripts, apiLawyers = api, htmlLawyers = html,
       content = ''<html><title>Lawyers</title></html>'',
       articleCount = 0, divLawyerCount = 0, dataTestIdCount = 0,
       contentTitle = ''Lawyers'', hasNextPage = True,
       nextPageUrl = ''https://www.avvo.com/bankruptcy-debt-lawyer/al.html?page=2'',
       clock = ''2024-01-01T00:00:00.000Z'' \<rparr>"


text \<open>
  Two pages of one run: the second shows again a lawyer of the first, under the same
  profile link, and the first has a record without a link.
\<close>

definition twoPages :: "page list" where
  "twoPages =
     [samplePage [] []
        [sampleLawyer (sampleUrl ''1'') [], sampleLawyer (sampleUrl ''2'') [],
         sampleLawyer [] []],
      samplePage [] []
        [sampleLawyer (sampleUrl ''2'') ''Seen again'', sampleLawyer (sampleUrl ''3'') []]]"

text \<open>
  A run input with a given budget and no enrichment, one with enrichment, and a network that
  is down.
\<close>

definition sampleConfig :: "int \<Rightarrow> config" where
  "sampleConfig m = \<lparr> maxLawyers = m, includeContactInfo = False \<rparr>"


definition noNetwork :: "json \<Rightarrow> http_result" where
  "noNetwork url = FetchError ''offline''"



section \<open>Lemmas\<close>

subsection \<open>The enrichment loop\<close>

declare enrichLoop.simps [simp del]
declare challengeLoop.simps [simp del]

lemma enrichOne_eq:
  "enrichOne g l c = (enriched g l, c + (if isBlocked g l then 1 else 0))"
  by (simp add: enrichOne_def enriched_def isBlocked_def split: profile_data.splits)

lemma enrichBatch_eq:
  "enrichBatch g ls c = (map (enriched g) ls, c + length (filter (isBlocked g) ls))"
  by (induction ls arbitrary: c) (simp_all add: enrichOne_eq)

lemma enrichLoop_eq:
  "enrichLoop g ls i acc c =
     (acc @ map (enriched g) (drop i ls), c + length (filter (isBlocked g) (drop i ls)))"
proof (induction g ls i acc c rule: enrichLoop.induct)
  case (1 g ls i acc c)
  show ?case
  proof (cases "i < length ls")
    case False
    then show ?thesis by (subst enrichLoop.simps) simp
  next
    case True
    have split: "drop i ls = take batchSize (drop i ls) @ drop (i + batchSize) ls"
      by (metis append_take_drop_id drop_drop add.commute)
    have ih: "enrichLoop g ls (i + batchSize)
                (acc @ map (enriched g) (take batchSize (drop i ls)))
                (c + length (filter (isBlocked g) (take batchSize (drop i ls)))) =
              ((acc @ map (enriched g) (take batchSize (drop i ls)))
                 @ map (enriched g) (drop (i + batchSize) ls),
               (c + length (filter (isBlocked g) (take batchSize (drop i ls))))
                 + length (filter (isBlocked g) (drop (i + batchSize) ls)))"
      using "1.IH" [OF True] by (simp add: enrichBatch_eq)
    have "enrichLoop g ls i acc c =
            enrichLoop g ls (i + batchSize)
              (acc @ map (enriched g) (take batchSize (drop i ls)))
              (c + length (filter (isBlocked g) (take batchSize (drop i ls))))"
      using True by (subst enrichLoop.simps) (simp add: enrichBatch_eq)
    also have "\<dots> = (acc @ map (enriched g) (drop i ls),
                     c + length (filter (isBlocked g) (drop i ls)))"
      unfolding ih by (subst (3 4) split) (simp del: append_take_drop_id)
    finally show ?thesis .
  qed
qed

lemma enrichLawyersWithProfiles_eq:
  "enrichLawyersWithProfiles g ls = (map (enriched g) ls, length (filter (isBlocked g) ls))"
  by (simp add: enrichLawyersWithProfiles_def enrichLoop_eq)

lemma profileUrl_enriched: "profileUrl (enriched g l) = profileUrl l"
  by (simp add: enriched_def enrichOne_def split: profile_data.splits)

subsection \<open>The address parts\<close>

lemma kept_parts_eq:
  "those (map elem_str (filter truthy_opt vs)) = kept_texts (map spec_part vs)"
proof (induction vs)
  case Nil
  then show ?case by simp
next
  case (Cons v vs)
  show ?case
  proof (cases v)
    case None
    with Cons show ?thesis by simp
  next
    case (Some a)
    with Cons show ?thesis
      by (cases a) (simp_all split: option.splits)
  qed
qed

lemma schema_location_object:
  "schema_location (JObj a) =
     spec_location (map spec_part [map_of a ''addressLocality'', map_of a ''addressRegion'',
                                   map_of a ''postalCode''])"
  using kept_parts_eq [of "[map_of a ''addressLocality'', map_of a ''addressRegion'',
                            map_of a ''postalCode'']"]
  by (simp only: schema_location_def array_join_def spec_location_def json.case get.simps)

lemma location_parseAttorneySchema:
  "map_option location (parseAttorneySchema now entry) =
     map_option JStr (schema_location (or_else (map_of entry ''address'') (JObj [])))"
  by (simp add: parseAttorneySchema_def Let_def split: option.splits)

subsection \<open>The handler, field by field\<close>

lemma paginate_fields:
  "dataset (paginate cfg page s) = dataset s"
  "seenLawyerUrls (paginate cfg page s) = seenLawyerUrls s"
  "strategyCalls (paginate cfg page s) = strategyCalls s"
  "extractionMethod (paginate cfg page s) = extractionMethod s"
  "keyValueWrites (paginate cfg page s) = keyValueWrites s"
  "debugLog (paginate cfg page s) = debugLog s"
  "pagesProcessed (paginate cfg page s) = pagesProcessed s"
  "totalLawyersScraped (paginate cfg page s) = totalLawyersScraped s"
  by (simp_all add: paginate_def)

lemma saveDebugInfo_fields:
  "dataset (saveDebugInfo page s) = dataset s"
  "seenLawyerUrls (saveDebugInfo page s) = seenLawyerUrls s"
  "strategyCalls (saveDebugInfo page s) = strategyCalls s"
  "extractionMethod (saveDebugInfo page s) = extractionMethod s"
  "requestQueue (saveDebugInfo page s) = requestQueue s"
  "pagesProcessed (saveDebugInfo page s) = pagesProcessed s"
  "totalLawyersScraped (saveDebugInfo page s) = totalLawyersScraped s"
  "keyValueWrites (saveDebugInfo page s) = keyValueWrites s @ [(''DEBUG_PAGE_HTML'', content page)]"
  "length (debugLog (saveDebugInfo page s)) = length (debugLog s) + 1"
  by (simp_all add: saveDebugInfo_def)

lemma saveLawyers_fields:
  "strategyCalls (saveLawyers cfg g page ls s) = strategyCalls s"
  "extractionMethod (saveLawyers cfg g page ls s) = extractionMethod s"
  "keyValueWrites (saveLawyers cfg g page ls s) = keyValueWrites s"
  "debugLog (saveLawyers cfg g page ls s) = debugLog s"
  "pagesProcessed (saveLawyers cfg g page ls s) = pagesProcessed s"
  by (simp_all add: saveLawyers_def Let_def paginate_fields split: prod.splits option.splits)

lemma saveLawyers_thrown:
  assumes "fst (uniqueFilter (budgetSlice (maxLawyers cfg) (totalLawyersScraped s) ls)
                  (seenLawyerUrls s)) = None"
  shows "saveLawyers cfg g page ls s =
           s\<lparr> seenLawyerUrls :=
                snd (uniqueFilter (budgetSlice (maxLawyers cfg) (totalLawyersScraped s) ls)
                       (seenLawyerUrls s)) \<rparr>"
proof -
  obtain r seen' where
    u: "uniqueFilter (budgetSlice (maxLawyers cfg) (totalLawyersScraped s) ls)
          (seenLawyerUrls s) = (r, seen')"
    by (cases "uniqueFilter (budgetSlice (maxLawyers cfg) (totalLawyersScraped s) ls)
                 (seenLawyerUrls s)")
  with assms have "r = None" by simp
  then show ?thesis
    by (simp add: saveLawyers_def Let_def u)
qed

lemma saveLawyers_dataset:
  "dataset (saveLawyers cfg g page ls s) =
     dataset s @
       (case fst (uniqueFilter (budgetSlice (maxLawyers cfg) (totalLawyersScraped s) ls)
                    (seenLawyerUrls s)) of
          None \<Rightarrow> []
        | Some kept \<Rightarrow> if includeContactInfo cfg then map (enriched g) kept else kept)"
  by (simp add: saveLawyers_def Let_def paginate_fields enrichLawyersWithProfiles_eq
           split: prod.splits option.splits)

lemma saveLawyers_seen:
  "seenLawyerUrls (saveLawyers cfg g page ls s) =
     snd (uniqueFilter (budgetSlice (maxLawyers cfg) (totalLawyersScraped s) ls)
            (seenLawyerUrls s))"
  by (simp add: saveLawyers_def Let_def paginate_fields split: prod.splits option.splits)

lemma saveLawyers_total:
  "totalLawyersScraped (saveLawyers cfg g page ls s) =
     totalLawyersScraped s
       + (case fst (uniqueFilter (budgetSlice (maxLawyers cfg) (totalLawyersScraped s) ls)
                      (seenLawyerUrls s)) of
            None \<Rightarrow> 0
          | Some kept \<Rightarrow> int (length kept))"
  by (simp add: saveLawyers_def Let_def paginate_fields enrichLawyersWithProfiles_eq
           split: prod.splits option.splits)

lemma runStrategies_fields:
  "dataset (snd (runStrategies page s)) = dataset s"
  "seenLawyerUrls (snd (runStrategies page s)) = seenLawyerUrls s"
  "keyValueWrites (snd (runStrategies page s)) = keyValueWrites s"
  "debugLog (snd (runStrategies page s)) = debugLog s"
  "requestQueue (snd (runStrategies page s)) = requestQueue s"
  "pagesProcessed (snd (runStrategies page s)) = pagesProcessed s"
  "totalLawyersScraped (snd (runStrategies page s)) = totalLawyersScraped s"
  by (simp_all add: runStrategies_def tryJsonLD_def tryInternalAPI_def tryHtmlParsing_def Let_def)

subsection \<open>The filter of seen profile links\<close>

lemma identityKeys_Cons:
  "identityKeys (l # ls) =
     (if truthy (profileUrl l) \<and> \<not> by_reference (profileUrl l)
      then profileUrl l # identityKeys ls else identityKeys ls)"
  by (simp add: identityKeys_def)

lemma identityKeys_append: "identityKeys (xs @ ys) = identityKeys xs @ identityKeys ys"
  by (simp add: identityKeys_def)

lemma identityKeys_enriched: "identityKeys (map (enriched g) ls) = identityKeys ls"
  by (simp add: identityKeys_def profileUrl_enriched comp_def)

lemma admitLawyer_cases:
  assumes "admitLawyer l seen = (r, seen1)"
  shows "(r = Some True \<and> \<not> truthy (profileUrl l) \<and> seen1 = seen)
       \<or> (r = Some True \<and> truthy (profileUrl l) \<and> \<not> set_has seen (profileUrl l)
            \<and> seen1 = insert (profileUrl l) seen)
       \<or> (r \<noteq> Some True \<and> truthy (profileUrl l) \<and> set_has seen (profileUrl l)
            \<and> seen1 = seen)"
  using assms by (auto simp: admitLawyer_def split: if_splits option.splits)

lemma uniqueFilter_inv:
  "uniqueFilter ls seen = (r, seen') \<Longrightarrow>
     seen \<subseteq> seen'
     \<and> (\<forall>kept. r = Some kept \<longrightarrow>
            set (identityKeys kept) \<subseteq> seen'
            \<and> set (identityKeys kept) \<inter> seen = {} \<and> distinct (identityKeys kept))"
proof (induction ls arbitrary: seen r seen')
  case Nil
  then show ?case by (auto simp: identityKeys_def)
next
  case (Cons l ls)
  obtain a seen1 where a: "admitLawyer l seen = (a, seen1)"
    by (cases "admitLawyer l seen")
  obtain k seen2 where k: "uniqueFilter ls seen1 = (k, seen2)"
    by (cases "uniqueFilter ls seen1")
  note ih = Cons.IH [OF k]
  note c = admitLawyer_cases [OF a]
  show ?case
  proof (cases a)
    case None
    with Cons.prems a c show ?thesis by auto
  next
    case (Some keep)
    have s2: "seen' = seen2"
      using Cons.prems a k Some by (simp split: option.splits)
    have sub: "seen \<subseteq> seen'"
      using c ih s2 by auto
    have "set (identityKeys kept) \<subseteq> seen'
          \<and> set (identityKeys kept) \<inter> seen = {} \<and> distinct (identityKeys kept)"
      if rk: "r = Some kept" for kept
    proof -
      obtain k' where k': "k = Some k'" "kept = (if keep then l # k' else k')"
        using Cons.prems a k Some rk by (auto split: option.splits)
      have fresh: "keep \<Longrightarrow> truthy (profileUrl l) \<Longrightarrow> \<not> by_reference (profileUrl l) \<Longrightarrow>
                     profileUrl l \<notin> seen"
        using c Some by (auto simp: set_has_def)
      from ih k' have i: "set (identityKeys k') \<subseteq> seen2"
                         "set (identityKeys k') \<inter> seen1 = {}" "distinct (identityKeys k')"
        by simp_all
      show ?thesis
      proof (cases keep)
        case False
        with c Some have "seen1 = seen" by auto
        with i k' False s2 show ?thesis by simp
      next
        case True
        with c Some have s1: "seen1 = seen \<or> seen1 = insert (profileUrl l) seen"
          and t: "truthy (profileUrl l) \<Longrightarrow> seen1 = insert (profileUrl l) seen"
          by auto
        have in2: "seen1 \<subseteq> seen2" using ih by simp
        show ?thesis
          using i k' True s2 s1 t fresh in2
          by (auto simp: identityKeys_Cons)
      qed
    qed
    with sub show ?thesis by blast
  qed
qed

lemma uniqueFilter_keeps_unkeyed:
  "uniqueFilter ls seen = (Some kept, seen') \<Longrightarrow> l \<in> set ls \<Longrightarrow> \<not> truthy (profileUrl l) \<Longrightarrow>
     l \<in> set kept"
proof (induction ls arbitrary: seen kept seen')
  case Nil
  then show ?case by simp
next
  case (Cons x xs)
  obtain a seen1 where a: "admitLawyer x seen = (a, seen1)"
    by (cases "admitLawyer x seen")
  obtain k seen2 where k: "uniqueFilter xs seen1 = (k, seen2)"
    by (cases "uniqueFilter xs seen1")
  from Cons.prems(1) a k obtain keep k' where
    e: "a = Some keep" "k = Some k'" "kept = (if keep then x # k' else k')"
    by (auto split: option.splits)
  show ?case
  proof (cases "l = x")
    case True
    then have "a = Some True"
      using a Cons.prems(3) by (simp add: admitLawyer_def)
    with e True show ?thesis by simp
  next
    case False
    then have "l \<in> set xs" using Cons.prems(2) by simp
    then have "l \<in> set k'"
      using Cons.IH [of seen1 k' seen2] k e Cons.prems(3) by simp
    with e show ?thesis by simp
  qed
qed


subsection \<open>The invariant of a run\<close>

lemma saveLawyers_keysRecorded:
  assumes "keysRecorded s"
  shows "keysRecorded (saveLawyers cfg g page ls s)"
proof -
  let ?in = "budgetSlice (maxLawyers cfg) (totalLawyersScraped s) ls"
  obtain r seen' where r: "uniqueFilter ?in (seenLawyerUrls s) = (r, seen')"
    by (cases "uniqueFilter ?in (seenLawyerUrls s)")
  note inv = uniqueFilter_inv [OF r]
  have seen: "seenLawyerUrls (saveLawyers cfg g page ls s) = seen'"
    by (simp add: saveLawyers_seen r)
  show ?thesis
  proof (cases r)
    case None
    then have "dataset (saveLawyers cfg g page ls s) = dataset s"
      by (simp add: saveLawyers_dataset r)
    then show ?thesis
      unfolding keysRecorded_def seen using assms inv by (auto simp: keysRecorded_def)
  next
    case (Some kept)
    then have keys: "identityKeys (dataset (saveLawyers cfg g page ls s)) =
                  identityKeys (dataset s) @ identityKeys kept"
      by (simp add: saveLawyers_dataset r identityKeys_append identityKeys_enriched)
    show ?thesis
      unfolding keysRecorded_def keys seen
      using assms inv Some by (auto simp: keysRecorded_def)
  qed
qed

lemma requestHandler_cases:
  "requestHandler cfg g page s =
     (if maxRetries \<le> challengeLoop page 0
      then saveDebugInfo page (s\<lparr> pagesProcessed := Suc (pagesProcessed s) \<rparr>)
      else if fst (runStrategies page (s\<lparr> pagesProcessed := Suc (pagesProcessed s) \<rparr>)) = []
      then saveDebugInfo page
             (snd (runStrategies page (s\<lparr> pagesProcessed := Suc (pagesProcessed s) \<rparr>)))
      else saveLawyers cfg g page
             (fst (runStrategies page (s\<lparr> pagesProcessed := Suc (pagesProcessed s) \<rparr>)))
             (snd (runStrategies page (s\<lparr> pagesProcessed := Suc (pagesProcessed s) \<rparr>))))"
  by (simp add: requestHandler_def Let_def split: prod.splits)

lemma fst_runStrategies: "fst (runStrategies page s) = fst (runStrategies page t)"
  by (simp add: runStrategies_def tryJsonLD_def tryInternalAPI_def tryHtmlParsing_def Let_def)

lemma requestHandler_keysRecorded:
  assumes "keysRecorded s"
  shows "keysRecorded (requestHandler cfg g page s)"
proof -
  let ?s = "s\<lparr> pagesProcessed := Suc (pagesProcessed s) \<rparr>"
  have s: "keysRecorded ?s"
    using assms by (simp add: keysRecorded_def)
  have d: "keysRecorded (saveDebugInfo page t)" if "keysRecorded t" for t
    using that by (simp add: keysRecorded_def saveDebugInfo_fields)
  have "keysRecorded (snd (runStrategies page ?s))"
    using assms by (simp add: keysRecorded_def runStrategies_fields)
  then show ?thesis
    by (simp add: requestHandler_cases d s saveLawyers_keysRecorded)
qed

lemma processPages_keysRecorded:
  "keysRecorded s \<Longrightarrow> keysRecorded (processPages cfg g pages s)"
  unfolding processPages_def
  by (induction pages arbitrary: s) (simp_all add: requestHandler_keysRecorded)

lemma saveLawyers_seen_grows:
  "seenLawyerUrls s \<subseteq> seenLawyerUrls (saveLawyers cfg g page ls s)"
  using uniqueFilter_inv [of _ "seenLawyerUrls s"]
  by (simp add: saveLawyers_seen) (metis prod.collapse)

lemma requestHandler_seen_grows:
  "seenLawyerUrls s \<subseteq> seenLawyerUrls (requestHandler cfg g page s)"
proof -
  let ?s = "s\<lparr> pagesProcessed := Suc (pagesProcessed s) \<rparr>"
  have "seenLawyerUrls (snd (runStrategies page ?s)) = seenLawyerUrls s"
    by (simp add: runStrategies_fields)
  then show ?thesis
    using saveLawyers_seen_grows [of "snd (runStrategies page ?s)" cfg g page]
    by (simp add: requestHandler_cases saveDebugInfo_fields)
qed


subsection \<open>Records of the structured-metadata strategy\<close>

lemma parseAttorneySchema_fixed:
  assumes "parseAttorneySchema now kvs = Some l"
  shows "yearsLicensed l = JNull" "barAdmissions l = JArr []" "languages l = JArr []"
    "website l = profileUrl l"
  using assms by (auto simp: parseAttorneySchema_def Let_def split: option.splits)

lemma collectItems_parsed:
  "l \<in> set (collectItems now xs) \<Longrightarrow> \<exists>kvs. parseAttorneySchema now kvs = Some l"
proof (induction now xs rule: collectItems.induct)
  case (3 now kvs rest)
  show ?case
  proof (cases "is_listing_type (map_of kvs ''@type'')")
    case False
    with 3 show ?thesis by simp
  next
    case True
    show ?thesis
    proof (cases "parseAttorneySchema now kvs")
      case None
      with 3 True show ?thesis by simp
    next
      case (Some x)
      with 3 True have "l = x \<or> l \<in> set (collectItems now rest)" by simp
      with 3 True Some show ?thesis by auto
    qed
  qed
qed simp_all

lemma collectListItems_parsed:
  "l \<in> set (collectListItems now xs) \<Longrightarrow> \<exists>kvs. parseAttorneySchema now kvs = Some l"
proof (induction xs)
  case Nil
  then show ?case by simp
next
  case (Cons listItem rest)
  show ?case
  proof (cases "listItem = JNull")
    case True
    with Cons show ?thesis by simp
  next
    case False
    then have step: "collectListItems now (listItem # rest) =
       (case or_else (get listItem ''item'') listItem of
          JObj kvs \<Rightarrow>
            (if is_listing_type (map_of kvs ''@type'')
             then (case parseAttorneySchema now kvs of
                     None \<Rightarrow> []
                   | Some lawyer \<Rightarrow> lawyer # collectListItems now rest)
             else collectListItems now rest)
        | _ \<Rightarrow> collectListItems now rest)"
      by (cases listItem) simp_all
    from Cons.prems have
      "l \<in> set (collectListItems now rest)
       \<or> (\<exists>kvs. parseAttorneySchema now kvs = Some l)"
      unfolding step by (auto split: json.splits if_splits option.splits)
    with Cons.IH show ?thesis by blast
  qed
qed

lemma processScript_parsed:
  "l \<in> set (processScript now d) \<Longrightarrow> \<exists>kvs. parseAttorneySchema now kvs = Some l"
  by (cases d)
     (auto simp: processScript_def dest: collectItems_parsed collectListItems_parsed
           split: if_splits option.splits)

lemma extractLawyersViaJsonLD_parsed:
  "l \<in> set (extractLawyersViaJsonLD now scripts) \<Longrightarrow> \<exists>kvs. parseAttorneySchema now kvs = Some l"
  by (auto simp: extractLawyersViaJsonLD_def dest: processScript_parsed split: option.splits)

subsection \<open>The challenge loop and the handler as a whole\<close>



lemma challengeLoop_clear:
  "\<not> challengeDetected page 0 \<Longrightarrow> challengeLoop page 0 = 0"
  by (subst challengeLoop.simps) (simp add: maxRetries_def)

lemma samplePage_clear: "challengeLoop (samplePage scripts api html) 0 = 0"
  by (rule challengeLoop_clear) (simp add: challengeDetected_def samplePage_def)



lemma saveLawyers_requestQueue:
  "fst (uniqueFilter (budgetSlice (maxLawyers cfg) (totalLawyersScraped s) ls)
          (seenLawyerUrls s)) \<noteq> None \<Longrightarrow>
   requestQueue (saveLawyers cfg g page ls s) =
     (if maxLawyers cfg > 0 \<and> totalLawyersScraped (saveLawyers cfg g page ls s) \<ge> maxLawyers cfg
      then requestQueue s
      else if hasNextPage page \<and> totalLawyersScraped (saveLawyers cfg g page ls s) < maxLawyers cfg
      then (if nextPageUrl page \<noteq> [] \<and> take 4 (nextPageUrl page) = ''http''
            then requestQueue s @ [nextPageUrl page] else requestQueue s)
      else requestQueue s)"
  by (auto simp: saveLawyers_def Let_def paginate_def split: prod.splits option.splits)

lemma runStrategies_calls:
  "strategyCalls (snd (runStrategies page s)) =
     strategyCalls s @
       (if extractLawyersViaJsonLD (clock page) (jsonLdScripts page) \<noteq> [] then [JsonLD]
        else if apiLawyers page \<noteq> [] then [JsonLD, InternalAPI]
        else [JsonLD, InternalAPI, HtmlParsing])"
  by (simp add: runStrategies_def tryJsonLD_def tryInternalAPI_def tryHtmlParsing_def Let_def)

lemma runStrategies_method:
  "extractionMethod (snd (runStrategies page s)) =
     (if extractLawyersViaJsonLD (clock page) (jsonLdScripts page) \<noteq> [] then ''JSON-LD''
      else if apiLawyers page \<noteq> [] then ''Internal API''
      else if htmlLawyers page \<noteq> [] then ''HTML Parsing (Cheerio)''
      else extractionMethod s)"
  by (simp add: runStrategies_def tryJsonLD_def tryInternalAPI_def tryHtmlParsing_def Let_def)

lemma runStrategies_lawyers:
  "fst (runStrategies page s) =
     (if extractLawyersViaJsonLD (clock page) (jsonLdScripts page) \<noteq> []
      then extractLawyersViaJsonLD (clock page) (jsonLdScripts page)
      else if apiLawyers page \<noteq> [] then apiLawyers page
      else htmlLawyers page)"
  by (simp add: runStrategies_def tryJsonLD_def tryInternalAPI_def tryHtmlParsing_def Let_def)

lemma requestHandler_calls:
  "challengeLoop page 0 < maxRetries \<Longrightarrow>
     strategyCalls (requestHandler cfg g page s) =
       strategyCalls (snd (runStrategies page (s\<lparr> pagesProcessed := Suc (pagesProcessed s) \<rparr>)))"
  by (simp add: requestHandler_cases saveDebugInfo_fields saveLawyers_fields)

lemma requestHandler_method:
  "challengeLoop page 0 < maxRetries \<Longrightarrow>
     extractionMethod (requestHandler cfg g page s) =
       extractionMethod (snd (runStrategies page (s\<lparr> pagesProcessed := Suc (pagesProcessed s) \<rparr>)))"
  by (simp add: requestHandler_cases saveDebugInfo_fields saveLawyers_fields)

lemma requestHandler_on_lawyers:
  assumes "challengeLoop page 0 < maxRetries"
    and "fst (runStrategies page s) \<noteq> []"
  shows "requestHandler cfg g page s =
           saveLawyers cfg g page (fst (runStrategies page s))
             (snd (runStrategies page (s\<lparr> pagesProcessed := Suc (pagesProcessed s) \<rparr>)))"
proof -
  have "fst (runStrategies page (s\<lparr> pagesProcessed := Suc (pagesProcessed s) \<rparr>))
          = fst (runStrategies page s)"
    by (rule fst_runStrategies)
  then show ?thesis
    using assms by (simp add: requestHandler_cases)
qed

lemma distinct_filter_nth:
  assumes "distinct (filter P xs)" and "i < j" and "j < length xs" and "P (xs ! i)"
  shows "xs ! i \<noteq> xs ! j"
proof
  assume eq: "xs ! i = xs ! j"
  have split: "xs = take j xs @ xs ! j # drop (Suc j) xs"
    using assms(3) by (simp add: id_take_nth_drop)
  have "xs ! i \<in> set (take j xs)"
    using assms(2,3) by (metis in_set_conv_nth length_take min.absorb2 nth_take
                               less_imp_le_nat)
  then have m: "xs ! j \<in> set (filter P (take j xs))"
    using assms(4) eq by simp
  have "distinct (filter P (take j xs) @ filter P (xs ! j # drop (Suc j) xs))"
    using assms(1) by (subst (asm) split) (simp del: append_take_drop_id)
  then have "xs ! j \<notin> set (filter P (take j xs))"
    using assms(4) eq by auto
  with m show False by simp
qed

lemma processPages_seen_grows:
  "seenLawyerUrls s \<subseteq> seenLawyerUrls (processPages cfg g pages s)"
  unfolding processPages_def
proof (induction pages arbitrary: s)
  case Nil
  then show ?case by simp
next
  case (Cons p ps)
  have "seenLawyerUrls s \<subseteq> seenLawyerUrls (requestHandler cfg g p s)"
    by (rule requestHandler_seen_grows)
  also have "\<dots> \<subseteq> seenLawyerUrls (foldl (\<lambda>s page. requestHandler cfg g page s)
                                     (requestHandler cfg g p s) ps)"
    by (rule Cons.IH)
  finally show ?case by simp
qed

lemma keysRecorded_initialState: "keysRecorded initialState"
  by (simp add: keysRecorded_def initialState_def identityKeys_def)

lemma twoPages_dataset:
  "dataset (processPages (sampleConfig 10) noNetwork twoPages initialState) =
     [sampleLawyer (sampleUrl ''1'') [], sampleLawyer (sampleUrl ''2'') [],
      sampleLawyer [] [], sampleLawyer (sampleUrl ''3'') []]"
proof -
  let ?p1 = "samplePage [] []
        [sampleLawyer (sampleUrl ''1'') [], sampleLawyer (sampleUrl ''2'') [],
         sampleLawyer [] []]"
  let ?p2 = "samplePage [] []
        [sampleLawyer (sampleUrl ''2'') ''Seen again'', sampleLawyer (sampleUrl ''3'') []]"
  have l: "fst (runStrategies (samplePage [] [] html) s) = html" for html s
    by (simp add: runStrategies_lawyers samplePage_def extractLawyersViaJsonLD_def)
  have h: "requestHandler cfg g (samplePage [] [] (x # xs)) s =
             saveLawyers cfg g (samplePage [] [] (x # xs)) (x # xs)
               (snd (runStrategies (samplePage [] [] (x # xs))
                       (s\<lparr> pagesProcessed := Suc (pagesProcessed s) \<rparr>)))" for cfg g x xs s
    using requestHandler_on_lawyers [of "samplePage [] [] (x # xs)" s cfg g]
    by (simp add: samplePage_clear maxRetries_def l)
  have k: "profileUrl (sampleLawyer url b) = JStr url"
          "name (sampleLawyer url b) = JStr ''Jane Doe''" for url b
    by (simp_all add: sampleLawyer_def)
  have n: "sampleUrl a \<noteq> []" "(sampleUrl a = sampleUrl b) = (a = b)" for a b
    by (simp_all add: sampleUrl_def)
  define s1 where "s1 = requestHandler (sampleConfig 10) noNetwork ?p1 initialState"
  have s1: "dataset s1 = [sampleLawyer (sampleUrl ''1'') [], sampleLawyer (sampleUrl ''2'') [],
         sampleLawyer [] []]"
       "seenLawyerUrls s1 = {JStr (sampleUrl ''2''), JStr (sampleUrl ''1'')}"
       "totalLawyersScraped s1 = 3"
    unfolding s1_def h
    by (simp_all add: saveLawyers_dataset saveLawyers_seen saveLawyers_total
          runStrategies_fields initialState_def
          sampleConfig_def budgetSlice_def k n set_has_def admitLawyer_def)
  have "dataset (requestHandler (sampleConfig 10) noNetwork ?p2 s1) =
          dataset s1 @ [sampleLawyer (sampleUrl ''3'') []]"
    unfolding h
    by (simp add: saveLawyers_dataset runStrategies_fields s1 sampleConfig_def
          budgetSlice_def k n set_has_def admitLawyer_def)
  then show ?thesis
    by (simp add: processPages_def twoPages_def s1 s1_def [symmetric])
qed



section \<open>The claims\<close>

subsection \<open>Enrichment from the detail page\<close>







subsection \<open>Records of the structured-metadata strategy\<close>

text \<open>
  Claim C5, as the code has it. For every raw structured-metadata entry: if its address is
  a plain string, the location of the record is that string; if its address is a
  sub-object, the location is built from locality, region and postal code, in this order,
  by the rule \<open>spec_location\<close>: a part that is absent, null, the empty string, zero or
  \<^verbatim>\<open>false\<close> is left out, every other part is kept by its text (a non-empty string as it is,
  a number by its digits), the kept texts are joined with a comma and a space, and no record
  is built when a kept part has no text. The witness is the example of the specification,
  locality Springfield, region IL and an empty postal code, and the same address with the
  postal code given as a number.
\<close>

theorem address_normalization:
  "(map_of entry ''address'' = Some (JStr s) \<longrightarrow>
      map_option location (parseAttorneySchema now entry) = Some (JStr s))
   \<and> (map_of entry ''address'' = Some (JObj a) \<longrightarrow>
      map_option location (parseAttorneySchema now entry) =
        map_option JStr
          (spec_location [spec_part (map_of a ''addressLocality''),
                          spec_part (map_of a ''addressRegion''),
                          spec_part (map_of a ''postalCode'')]))"
proof (intro conjI impI)
  assume "map_of entry ''address'' = Some (JStr s)"
  then show "map_option location (parseAttorneySchema now entry) = Some (JStr s)"
    unfolding location_parseAttorneySchema
    by (cases "s = []") (simp_all add: schema_location_def array_join_def)
next
  assume "map_of entry ''address'' = Some (JObj a)"
  then have "or_else (map_of entry ''address'') (JObj []) = JObj a"
    by simp
  then show "map_option location (parseAttorneySchema now entry) =
        map_option JStr
          (spec_location [spec_part (map_of a ''addressLocality''),
                          spec_part (map_of a ''addressRegion''),
                          spec_part (map_of a ''postalCode'')])"
    unfolding location_parseAttorneySchema by (simp add: schema_location_object)
qed

theorem address_normalization_witness:
  "map_option location
     (parseAttorneySchema ''t''
        [(''name'', JStr ''Jane Doe''), (''address'', JStr ''Springfield, IL 62701'')])
     = Some (JStr ''Springfield, IL 62701'')
   \<and> map_option location
     (parseAttorneySchema ''t''
        [(''address'', JObj [(''addressLocality'', JStr ''Springfield''),
                             (''addressRegion'', JStr ''IL''),
                             (''postalCode'', JStr [])])])
     = Some (JStr ''Springfield, IL'')
   \<and> map_option location
     (parseAttorneySchema ''t''
        [(''address'', JObj [(''addressLocality'', JStr ''Springfield''),
                             (''addressRegion'', JStr ''IL''),
                             (''postalCode'', JNum ''62701'')])])
     = Some (JStr ''Springfield, IL, 62701'')"
  using address_normalization
          [of "[(''name'', JStr ''Jane Doe''), (''address'', JStr ''Springfield, IL 62701'')]"
              "''Springfield, IL 62701''" "''t''"]
        address_normalization
          [of "[(''address'', JObj [(''addressLocality'', JStr ''Springfield''),
                             (''addressRegion'', JStr ''IL''),
                             (''postalCode'', JStr [])])]" _ "''t''"
              "[(''addressLocality'', JStr ''Springfield''),
                             (''addressRegion'', JStr ''IL''),
                             (''postalCode'', JStr [])]"]
        address_normalization
          [of "[(''address'', JObj [(''addressLocality'', JStr ''Springfield''),
                             (''addressRegion'', JStr ''IL''),
                             (''postalCode'', JNum ''62701'')])]" _ "''t''"
              "[(''addressLocality'', JStr ''Springfield''),
                             (''addressRegion'', JStr ''IL''),
                             (''postalCode'', JNum ''62701'')]"]
  by (simp add: spec_location_def)

text \<open>
  The claim C5 as it was written leaves out the absent and the empty parts and joins the
  others. It fails on two addresses: a postal code that is the number zero is there and is
  not empty, and the code leaves it out; a locality that is an empty array is empty, and
  the code keeps it, so that the location starts with the separator.
\<close>

theorem address_parts_by_truthiness:
  "map_option location
     (parseAttorneySchema ''t''
        [(''address'', JObj [(''addressLocality'', JStr ''Springfield''),
                             (''addressRegion'', JStr ''IL''),
                             (''postalCode'', JNum ''0'')])])
     = Some (JStr ''Springfield, IL'')
   \<and> map_option location
     (parseAttorneySchema ''t''
        [(''address'', JObj [(''addressLocality'', JArr []),
                             (''addressRegion'', JStr ''IL'')])])
     = Some (JStr '', IL'')"
  by (simp add: parseAttorneySchema_def schema_location_def array_join_def)

text \<open>
  Claim C10. Every record that the structured-metadata strategy returns has
  \<open>yearsLicensed\<close> null, \<open>barAdmissions\<close> and \<open>languages\<close> the empty list, and a \<open>website\<close>
  equal to its \<open>profileUrl\<close>.
\<close>

theorem jsonld_record_defaults:
  assumes "l \<in> set (extractLawyersViaJsonLD now scripts)"
  shows "yearsLicensed l = JNull \<and> barAdmissions l = JArr [] \<and> languages l = JArr []
         \<and> website l = profileUrl l"
proof -
  obtain kvs where "parseAttorneySchema now kvs = Some l"
    using assms extractLawyersViaJsonLD_parsed by blast
  then show ?thesis
    by (simp add: parseAttorneySchema_fixed)
qed

theorem jsonld_record_defaults_witness:
  "the (parseAttorneySchema ''t'' sampleEntry)
     \<in> set (extractLawyersViaJsonLD ''t'' [Some (JArr [JObj sampleEntry])])
   \<and> yearsLicensed (the (parseAttorneySchema ''t'' sampleEntry)) = JNull
   \<and> barAdmissions (the (parseAttorneySchema ''t'' sampleEntry)) = JArr []
   \<and> languages (the (parseAttorneySchema ''t'' sampleEntry)) = JArr []
   \<and> website (the (parseAttorneySchema ''t'' sampleEntry))
       = JStr ''https://www.avvo.com/attorneys/1.html''
   \<and> profileUrl (the (parseAttorneySchema ''t'' sampleEntry))
       = JStr ''https://www.avvo.com/attorneys/1.html''"
proof -
  obtain r where r: "parseAttorneySchema ''t'' sampleEntry = Some r"
    by (simp add: parseAttorneySchema_def schema_location_def array_join_def sampleEntry_def)
  have m: "the (parseAttorneySchema ''t'' sampleEntry)
             \<in> set (extractLawyersViaJsonLD ''t'' [Some (JArr [JObj sampleEntry])])"
    using r
    by (simp add: extractLawyersViaJsonLD_def processScript_def)
       (simp add: is_listing_type_def sampleEntry_def)
  have w: "website (the (parseAttorneySchema ''t'' sampleEntry))
             = JStr ''https://www.avvo.com/attorneys/1.html''"
    by (simp add: parseAttorneySchema_def schema_location_def array_join_def sampleEntry_def)
  show ?thesis
    using m w jsonld_record_defaults [OF m] by simp
qed

subsection \<open>The run input\<close>

text \<open>
  Claim C9. When the run input has no \<^verbatim>\<open>maxLawyers\<close> (null or undefined), the budget is 50,
  and it is a real bound: of the records of a first page, the first 50 at most go on.
\<close>

theorem default_budget_fifty:
  "resolveMaxLawyers None = Inr 50 \<and> budgetSlice 50 0 lawyers = take 50 lawyers"
  by (simp add: resolveMaxLawyers_def budgetSlice_def)

subsection \<open>One page in the handler\<close>

text \<open>
  Claim C2. For every page that gets past the challenge loop, the structured-metadata
  strategy is called first, the embedded-data strategy only if the first found nothing, the
  HTML strategy only if both found nothing; no strategy is called after one that returned a
  record, and the label of the strategy that returned records is what
  \<^verbatim>\<open>extractionMethod\<close> holds when the handler is done.
\<close>

theorem strategy_cascade_order:
  assumes "challengeLoop page 0 < maxRetries"
  shows "(extractLawyersViaJsonLD (clock page) (jsonLdScripts page) \<noteq> [] \<longrightarrow>
            strategyCalls (requestHandler cfg g page s) = strategyCalls s @ [JsonLD]
            \<and> extractionMethod (requestHandler cfg g page s) = ''JSON-LD'')
       \<and> (extractLawyersViaJsonLD (clock page) (jsonLdScripts page) = []
            \<and> apiLawyers page \<noteq> [] \<longrightarrow>
            strategyCalls (requestHandler cfg g page s) = strategyCalls s @ [JsonLD, InternalAPI]
            \<and> extractionMethod (requestHandler cfg g page s) = ''Internal API'')
       \<and> (extractLawyersViaJsonLD (clock page) (jsonLdScripts page) = []
            \<and> apiLawyers page = [] \<and> htmlLawyers page \<noteq> [] \<longrightarrow>
            strategyCalls (requestHandler cfg g page s)
              = strategyCalls s @ [JsonLD, InternalAPI, HtmlParsing]
            \<and> extractionMethod (requestHandler cfg g page s) = ''HTML Parsing (Cheerio)'')"
  using assms
  by (simp add: requestHandler_calls requestHandler_method runStrategies_calls
                runStrategies_method)


theorem strategy_cascade_order_witness:
  "strategyCalls (requestHandler (sampleConfig 0) noNetwork
       (samplePage [Some (JArr [JObj sampleEntry])] [] []) initialState) = [JsonLD]
   \<and> extractionMethod (requestHandler (sampleConfig 0) noNetwork
       (samplePage [Some (JArr [JObj sampleEntry])] [] []) initialState) = ''JSON-LD''
   \<and> strategyCalls (requestHandler (sampleConfig 0) noNetwork
       (samplePage [] [sampleLawyer (sampleUrl ''2'') []] []) initialState)
       = [JsonLD, InternalAPI]
   \<and> extractionMethod (requestHandler (sampleConfig 0) noNetwork
       (samplePage [] [sampleLawyer (sampleUrl ''2'') []] []) initialState) = ''Internal API''
   \<and> strategyCalls (requestHandler (sampleConfig 0) noNetwork
       (samplePage [] [] [sampleLawyer (sampleUrl ''3'') []]) initialState)
       = [JsonLD, InternalAPI, HtmlParsing]
   \<and> extractionMethod (requestHandler (sampleConfig 0) noNetwork
       (samplePage [] [] [sampleLawyer (sampleUrl ''3'') []]) initialState)
       = ''HTML Parsing (Cheerio)''"
proof -
  have c: "challengeLoop (samplePage scripts api html) 0 < maxRetries" for scripts api html
    by (simp add: samplePage_clear maxRetries_def)
  have j: "extractLawyersViaJsonLD (clock (samplePage [Some (JArr [JObj sampleEntry])] [] []))
             (jsonLdScripts (samplePage [Some (JArr [JObj sampleEntry])] [] [])) \<noteq> []"
    by (simp add: samplePage_def extractLawyersViaJsonLD_def processScript_def
                  is_listing_type_def sampleEntry_def parseAttorneySchema_def
                  schema_location_def array_join_def)
  have e: "extractLawyersViaJsonLD (clock (samplePage [] api html))
             (jsonLdScripts (samplePage [] api html)) = []" for api html
    by (simp add: samplePage_def extractLawyersViaJsonLD_def)
  have a: "apiLawyers (samplePage [] [sampleLawyer (sampleUrl ''2'') []] []) \<noteq> []"
          "apiLawyers (samplePage [] [] [sampleLawyer (sampleUrl ''3'') []]) = []"
          "htmlLawyers (samplePage [] [] [sampleLawyer (sampleUrl ''3'') []]) \<noteq> []"
    by (simp_all add: samplePage_def)
  show ?thesis
    using strategy_cascade_order
            [OF c, of "[Some (JArr [JObj sampleEntry])]" "[]" "[]" "sampleConfig 0" noNetwork
               initialState]
          strategy_cascade_order
            [OF c, of "[]" "[sampleLawyer (sampleUrl ''2'') []]" "[]" "sampleConfig 0" noNetwork
               initialState]
          strategy_cascade_order
            [OF c, of "[]" "[]" "[sampleLawyer (sampleUrl ''3'') []]" "sampleConfig 0" noNetwork
               initialState]
          j e a
    by (simp add: initialState_def)
qed






text \<open>
  Claim C3 at its failing input: a budget of 0, a first page with one record and a next-page
  link. The record is saved, as an unbounded budget wants it, and no request for the next
  page is added, because \<^verbatim>\<open>totalLawyersScraped < maxLawyers\<close> is never true for a budget of 0;
  the same page with a budget of 5 adds the request.
\<close>

theorem zero_budget_requests_no_page:
  "hasNextPage (samplePage [] [] [sampleLawyer (sampleUrl ''1'') []])
   \<and> nextPageUrl (samplePage [] [] [sampleLawyer (sampleUrl ''1'') []])
       = ''https://www.avvo.com/bankruptcy-debt-lawyer/al.html?page=2''
   \<and> length (dataset (requestHandler (sampleConfig 0) noNetwork
        (samplePage [] [] [sampleLawyer (sampleUrl ''1'') []]) initialState)) = 1
   \<and> requestQueue (requestHandler (sampleConfig 0) noNetwork
        (samplePage [] [] [sampleLawyer (sampleUrl ''1'') []]) initialState) = []
   \<and> requestQueue (requestHandler (sampleConfig 5) noNetwork
        (samplePage [] [] [sampleLawyer (sampleUrl ''1'') []]) initialState)
       = [''https://www.avvo.com/bankruptcy-debt-lawyer/al.html?page=2'']"
proof -
  let ?p = "samplePage [] [] [sampleLawyer (sampleUrl ''1'') []]"
  have l: "fst (runStrategies ?p s) = [sampleLawyer (sampleUrl ''1'') []]" for s
    by (simp add: runStrategies_lawyers samplePage_def extractLawyersViaJsonLD_def)
  have h: "requestHandler cfg noNetwork ?p initialState =
             saveLawyers cfg noNetwork ?p [sampleLawyer (sampleUrl ''1'') []]
               (snd (runStrategies ?p (initialState\<lparr> pagesProcessed := Suc (pagesProcessed initialState) \<rparr>)))"
    for cfg
    by (simp add: requestHandler_cases samplePage_clear maxRetries_def l)
  have u: "fst (uniqueFilter [sampleLawyer (sampleUrl ''1'') []] {})
             = Some [sampleLawyer (sampleUrl ''1'') []]"
    by (simp add: sampleLawyer_def sampleUrl_def set_has_def admitLawyer_def)
  have f: "fst (uniqueFilter
                  (budgetSlice (maxLawyers (sampleConfig m))
                     (totalLawyersScraped (snd (runStrategies ?p (initialState\<lparr> pagesProcessed := Suc (pagesProcessed initialState) \<rparr>))))
                     [sampleLawyer (sampleUrl ''1'') []])
                  (seenLawyerUrls (snd (runStrategies ?p (initialState\<lparr> pagesProcessed := Suc (pagesProcessed initialState) \<rparr>)))))
             \<noteq> None" if "m = 0 \<or> m = 5" for m
    using that
    by (auto simp: runStrategies_fields initialState_def sampleConfig_def
                  budgetSlice_def u simp del: uniqueFilter.simps)
  have t: "totalLawyersScraped (saveLawyers (sampleConfig m) noNetwork ?p
              [sampleLawyer (sampleUrl ''1'') []]
              (snd (runStrategies ?p (initialState\<lparr> pagesProcessed := Suc (pagesProcessed initialState) \<rparr>))))
            = 1" if "m = 0 \<or> m = 5" for m
    using that
    by (auto simp: saveLawyers_total runStrategies_fields initialState_def sampleConfig_def
                  budgetSlice_def u simp del: uniqueFilter.simps)
  have d: "dataset (saveLawyers (sampleConfig 0) noNetwork ?p
              [sampleLawyer (sampleUrl ''1'') []]
              (snd (runStrategies ?p (initialState\<lparr> pagesProcessed := Suc (pagesProcessed initialState) \<rparr>))))
            = [sampleLawyer (sampleUrl ''1'') []]"
    by (simp add: saveLawyers_dataset runStrategies_fields initialState_def sampleConfig_def
                  budgetSlice_def u del: uniqueFilter.simps)
  have q: "requestQueue (snd (runStrategies ?p (initialState\<lparr> pagesProcessed := Suc (pagesProcessed initialState) \<rparr>))) = []"
    by (simp add: runStrategies_fields initialState_def)
  show ?thesis
    unfolding h
    by (simp add: saveLawyers_requestQueue f t d q) (simp add: samplePage_def sampleConfig_def)
qed

subsection \<open>The whole run\<close>

text \<open>
  Claim C1, as the code has it. For every run, that is for every sequence of pages handled
  from the initial state: no two records of the dataset have the same non-empty profile
  link when the link is a string, a number or a boolean, the values that the set of seen
  links compares by value (a link that is an array or an object is compared by reference
  and never found again); the set of seen links only grows while the run goes on; and a
  record whose profile link is the empty string is always let through by the callback of
  the filter, whatever the set of seen links holds, and is in every list the filter
  returns.
\<close>

theorem no_shared_profile_url:
  "(i < j \<and> j < length (dataset (processPages cfg g pages initialState))
      \<and> profileUrl (dataset (processPages cfg g pages initialState) ! i) = u
      \<and> truthy u \<and> \<not> by_reference u \<longrightarrow>
    profileUrl (dataset (processPages cfg g pages initialState) ! j) \<noteq> u)
   \<and> seenLawyerUrls s \<subseteq> seenLawyerUrls (processPages cfg g later s)
   \<and> (profileUrl l = JStr [] \<longrightarrow> admitLawyer l seen = (Some True, seen))
   \<and> (uniqueFilter ls seen = (Some kept, seen') \<and> l \<in> set ls \<and> profileUrl l = JStr [] \<longrightarrow>
        l \<in> set kept)"
proof (intro conjI impI)
  let ?ds = "dataset (processPages cfg g pages initialState)"
  assume h: "i < j \<and> j < length ?ds \<and> profileUrl (?ds ! i) = u
             \<and> truthy u \<and> \<not> by_reference u"
  have "keysRecorded (processPages cfg g pages initialState)"
    by (intro processPages_keysRecorded keysRecorded_initialState)
  then have d: "distinct (filter (\<lambda>u. truthy u \<and> \<not> by_reference u) (map profileUrl ?ds))"
    by (simp add: keysRecorded_def identityKeys_def)
  have "map profileUrl ?ds ! i \<noteq> map profileUrl ?ds ! j"
    using h by (intro distinct_filter_nth [OF d]) simp_all
  then show "profileUrl (?ds ! j) \<noteq> u"
    using h by simp
next
  show "seenLawyerUrls s \<subseteq> seenLawyerUrls (processPages cfg g later s)"
    by (rule processPages_seen_grows)
next
  assume "profileUrl l = JStr []"
  then show "admitLawyer l seen = (Some True, seen)"
    by (simp add: admitLawyer_def)
next
  assume "uniqueFilter ls seen = (Some kept, seen') \<and> l \<in> set ls \<and> profileUrl l = JStr []"
  then show "l \<in> set kept"
    using uniqueFilter_keeps_unkeyed [of ls seen kept seen' l] by simp
qed

theorem no_shared_profile_url_witness:
  "profileUrl (dataset (processPages (sampleConfig 10) noNetwork twoPages initialState) ! 1)
     = JStr (sampleUrl ''2'')
   \<and> profileUrl (dataset (processPages (sampleConfig 10) noNetwork twoPages initialState) ! 3)
     \<noteq> JStr (sampleUrl ''2'')
   \<and> seenLawyerUrls initialState
       \<subseteq> seenLawyerUrls (processPages (sampleConfig 10) noNetwork twoPages initialState)
   \<and> admitLawyer (sampleLawyer [] []) {JStr []} = (Some True, {JStr []})
   \<and> sampleLawyer [] [] \<in> set [sampleLawyer [] []]"
proof -
  have k: "profileUrl (sampleLawyer url b) = JStr url" for url b
    by (simp add: sampleLawyer_def)
  have n: "sampleUrl ''2'' \<noteq> []"
    by (simp add: sampleUrl_def)
  have f: "uniqueFilter [sampleLawyer [] []] {JStr []} = (Some [sampleLawyer [] []], {JStr []})"
    by (simp add: admitLawyer_def k)
  show ?thesis
    using no_shared_profile_url
            [of 1 3 "sampleConfig 10" noNetwork twoPages "JStr (sampleUrl ''2'')" initialState
                twoPages "sampleLawyer [] []" "{JStr []}" "[sampleLawyer [] []]"
                "[sampleLawyer [] []]" "{JStr []}"]
    by (simp add: twoPages_dataset k n f del: uniqueFilter.simps)
qed

text \<open>
  The claim C1 as it was written covers every non-empty profile link. It fails on a first
  page whose structured data lists the same lawyer twice with the link written as a
  one-element array: both records are pushed, with equal non-empty links.
\<close>

theorem array_links_not_deduplicated:
  "truthy (JArr [JStr ''https://www.avvo.com/attorneys/1.html''])
   \<and> map profileUrl
       (dataset (requestHandler (sampleConfig 10) noNetwork
          (samplePage [Some (JArr [JObj arrayLinkEntry, JObj arrayLinkEntry])] [] [])
          initialState))
     = [JArr [JStr ''https://www.avvo.com/attorneys/1.html''],
        JArr [JStr ''https://www.avvo.com/attorneys/1.html'']]"
proof -
  let ?p = "samplePage [Some (JArr [JObj arrayLinkEntry, JObj arrayLinkEntry])] [] []"
  obtain r where r: "parseAttorneySchema (clock ?p) arrayLinkEntry = Some r"
    by (simp add: parseAttorneySchema_def schema_location_def array_join_def
                  arrayLinkEntry_def)
  then have u: "profileUrl r = JArr [JStr ''https://www.avvo.com/attorneys/1.html'']"
    by (auto simp: parseAttorneySchema_def schema_location_def array_join_def
                   arrayLinkEntry_def)
  have t: "is_listing_type (map_of arrayLinkEntry ''@type'')"
    by (simp add: is_listing_type_def arrayLinkEntry_def)
  have j: "extractLawyersViaJsonLD (clock ?p) (jsonLdScripts ?p) = [r, r]"
    using r t by (simp add: extractLawyersViaJsonLD_def processScript_def samplePage_def)
  then have l: "fst (runStrategies ?p s) = [r, r]" for s
    by (simp add: runStrategies_lawyers)
  have h: "requestHandler (sampleConfig 10) noNetwork ?p initialState =
             saveLawyers (sampleConfig 10) noNetwork ?p [r, r]
               (snd (runStrategies ?p
                       (initialState\<lparr> pagesProcessed := Suc (pagesProcessed initialState) \<rparr>)))"
    using requestHandler_on_lawyers [of ?p initialState "sampleConfig 10" noNetwork]
    by (simp add: samplePage_clear maxRetries_def l)
  have f: "fst (uniqueFilter [r, r] {}) = Some [r, r]"
    by (simp add: admitLawyer_def set_has_def u)
  show ?thesis
    unfolding h
    by (simp add: saveLawyers_dataset runStrategies_fields initialState_def sampleConfig_def
                  budgetSlice_def f u del: uniqueFilter.simps)
qed

end
